theory Spec2Isabelle
  imports Complex_Main
begin

section \<open>The notebooks as data\<close>

text \<open>
  The repository holds Jupyter notebooks and one continuous-integration workflow. A
  notebook is a list of cells; a code cell is a list of Python statements together with
  the output captured when it was last run. The statements are kept as syntax trees, one
  constructor per Python form, so that each cell below can be read against the cell of
  the notebook it embeds. Markdown cells hold narrative text only and are left out.
\<close>

datatype binop = Add | Sub | Mult

datatype expr =
    Name string
  | IntLit int
  | FloatLit string
  | StrLit string
  | BoolLit bool
  | Attribute expr string
  | Subscript expr expr
  | Call expr "expr list" "(string \<times> expr) list"
  | DictLit "(expr \<times> expr) list"
  | ListLit "expr list"
  | TupleLit "expr list"
  | BinOp expr binop expr

text \<open>
  \<open>FloatLit\<close> keeps the token of the source (\<open>1.\<close>, \<open>1.e-10\<close>). \<open>Call f args kws\<close> is
  \<open>f(args, k=v, ...)\<close>. The statement forms are those of Python; the notebooks use the
  first four only, which is what several theorems below establish.
\<close>

datatype stmt =
    Import string "string option"
  | ImportFrom string "string list"
  | Assign expr expr
  | ExprStmt expr
  | Raise expr
  | Assert expr
  | IfElse expr "stmt list" "stmt list"
  | For expr expr "stmt list"
  | While expr "stmt list"
  | With expr "stmt list"
  | Try "stmt list" "(expr option \<times> stmt list) list" "stmt list"
  | FunctionDef string "string list" "stmt list"
  | ClassDef string "stmt list"

text \<open>
  The captured \<open>execute_result\<close> of a cell: a printed numpy array, a printed integer, or
  any other \<open>repr\<close> text (not kept). Arrays are printed with five digits; \<open>-0.\<close> is written \<open>0\<close>.
\<close>

datatype out_value = ArrayOut "real list" | IntOut int | OtherOut

record cell =
  tags :: "string list"
  source :: "stmt list"
  stream :: bool
  result :: "out_value option"

text \<open>
  \<open>tags\<close> are the tags of the cell's metadata (no cell has any), \<open>stream\<close> says whether a
  standard-output stream was captured, \<open>result\<close> is the displayed value of the cell's last
  expression.
\<close>

definition code_cell :: "stmt list \<Rightarrow> bool \<Rightarrow> out_value option \<Rightarrow> cell" where
  "code_cell ss str res = \<lparr>tags = [], source = ss, stream = str, result = res\<rparr>"

record notebook =
  title :: string
  cells :: "cell list"

subsection \<open>Cells shared by both notebooks\<close>

definition numpy_setup :: "stmt list" where
  "numpy_setup =
    [Import ''numpy'' (Some ''np''),
     Import ''scipy'' None,
     Import ''matplotlib.pyplot'' (Some ''plt''),
     ExprStmt (Call (Attribute (Name ''np'') ''set_printoptions'') []
        [(''precision'', IntLit 5), (''suppress'', BoolLit True), (''linewidth'', IntLit 100)]),
     Assign (Subscript (Attribute (Name ''plt'') ''rcParams'') (StrLit ''figure.dpi''))
        (IntLit 150)]"

definition setup_logging :: stmt where
  "setup_logging =
     ExprStmt (Call (Attribute (Attribute (Attribute (Name ''tenpy'') ''tools'') ''misc'')
        ''setup_logging'') [] [(''to_stdout'', StrLit ''INFO'')])"

subsection \<open>The template notebook\<close>

definition template_notebook :: notebook where
  "template_notebook = \<lparr>title = ''Template'', cells =
    [code_cell numpy_setup False None,
     code_cell
       [Import ''tenpy'' None,
        Import ''tenpy.linalg.np_conserved'' (Some ''npc''),
        ImportFrom ''tenpy.algorithms'' [''tebd''],
        ImportFrom ''tenpy.networks.mps'' [''MPS''],
        setup_logging] False None,
     code_cell
       [ExprStmt (Call (Attribute (Name ''tenpy'') ''show_config'') [] [])] True None,
     code_cell [] False None]\<rparr>"

subsection \<open>The segment notebook\<close>

text \<open>
  \<^emph>\<open>Excitations with DMRG and segment boundary conditions\<close>. Each definition
  is the source of one code cell, in the order of the notebook.
\<close>

definition tenpy_imports :: "stmt list" where
  "tenpy_imports =
    [Import ''tenpy'' None,
     Import ''tenpy.linalg.np_conserved'' (Some ''npc''),
     ImportFrom ''tenpy.algorithms'' [''dmrg''],
     ImportFrom ''tenpy.networks.mps'' [''MPS''],
     ImportFrom ''tenpy.models.xxz_chain'' [''XXZChain''],
     ImportFrom ''tenpy.models.tf_ising'' [''TFIChain''],
     setup_logging]"

definition segment_imports :: "stmt list" where
  "segment_imports =
    [ImportFrom ''tenpy.models.lattice'' [''TrivialLattice''],
     ImportFrom ''tenpy.models.model'' [''MPOModel''],
     ImportFrom ''tenpy.networks.mpo'' [''MPOEnvironment'']]"

definition infinite_model_cell :: "stmt list" where
  "infinite_model_cell =
    [Assign (Name ''model_params'') (DictLit
       [(StrLit ''J'', FloatLit ''1.''), (StrLit ''g'', FloatLit ''1.5''),
        (StrLit ''L'', IntLit 2),
        (StrLit ''bc_MPS'', StrLit ''infinite''),
        (StrLit ''conserve'', StrLit ''best'')]),
     Assign (Name ''M_i'') (Call (Name ''TFIChain'') [Name ''model_params''] [])]"

definition infinite_dmrg_cell :: "stmt list" where
  "infinite_dmrg_cell =
    [Assign (Name ''psi0_i'') (Call (Attribute (Name ''MPS'') ''from_lat_product_state'')
       [Attribute (Name ''M_i'') ''lat'', ListLit [ListLit [StrLit ''up'']]] []),
     Assign (Name ''dmrg_params'') (DictLit
       [(StrLit ''mixer'', BoolLit True),
        (StrLit ''max_E_err'', FloatLit ''1.e-10''),
        (StrLit ''trunc_params'', DictLit
           [(StrLit ''chi_max'', IntLit 100), (StrLit ''svd_min'', FloatLit ''1.e-10'')])]),
     Assign (Name ''eng0_i'') (Call (Attribute (Name ''dmrg'') ''TwoSiteDMRGEngine'')
       [Name ''psi0_i'', Name ''M_i'', Name ''dmrg_params''] []),
     Assign (TupleLit [Name ''E0_i'', Name ''_''])
       (Call (Attribute (Name ''eng0_i'') ''run'') [] []),
     Assign (Name ''resume_psi0_i'') (Call (Attribute (Name ''eng0_i'') ''get_resume_data'') []
       [(''sequential_simulations'', BoolLit True)])]"

definition extract_segment_cell :: "stmt list" where
  "extract_segment_cell =
    [Assign (Name ''enlarge'') (IntLit 10),
     Assign (Name ''M_s'') (Call (Attribute (Name ''M_i'') ''extract_segment'') []
       [(''enlarge'', IntLit 10)]),
     Assign (TupleLit [Name ''first'', Name ''last''])
       (Attribute (Attribute (Name ''M_s'') ''lat'') ''segment_first_last''),
     Assign (Name ''psi0_s'') (Call (Attribute (Name ''psi0_i'') ''extract_segment'')
       [Name ''first'', Name ''last''] []),
     Assign (Name ''init_env_data'')
       (Call (Attribute (Attribute (Name ''eng0_i'') ''env'') ''get_initialization_data'')
          [Name ''first'', Name ''last''] []),
     Assign (Name ''psi1_s'') (Call (Attribute (Name ''psi0_s'') ''copy'') [] []),
     Assign (Name ''resume_psi1_s'')
       (DictLit [(StrLit ''init_env_data'', Name ''init_env_data'')])]"

definition segment_dmrg_cell :: "stmt list" where
  "segment_dmrg_cell =
    [Assign (Name ''eng'') (Call (Attribute (Name ''dmrg'') ''TwoSiteDMRGEngine'')
       [Name ''psi1_s'', Name ''M_s'', Name ''dmrg_params'']
       [(''resume_data'', Name ''resume_psi1_s'')]),
     Assign (TupleLit [Name ''E1_s'', Name ''_''])
       (Call (Attribute (Name ''eng'') ''run'') [] [])]"

definition entanglement_entropy_call :: "string \<Rightarrow> expr" where
  "entanglement_entropy_call psi = Call (Attribute (Name psi) ''entanglement_entropy'') [] []"

definition expectation_value_call :: "string \<Rightarrow> expr" where
  "expectation_value_call psi =
     Call (Attribute (Name psi) ''expectation_value'') [StrLit ''Sigmaz''] []"

definition project_left_boundary_cell :: "stmt list" where
  "project_left_boundary_cell =
    [Assign (Name ''psi_halfinf'') (Call (Attribute (Name ''psi0_s'') ''copy'') [] []),
     Assign (Name ''S'') (Call (Attribute (Name ''psi0_s'') ''get_SL'') [IntLit 0] []),
     Assign (Name ''proj'') (Call (Attribute (Name ''np'') ''zeros'')
       [Call (Name ''len'') [Name ''S''] [], Name ''bool''] []),
     Assign (Subscript (Name ''proj'') (Call (Attribute (Name ''np'') ''argmax'') [Name ''S''] []))
       (BoolLit True),
     Assign (Name ''B'') (Call (Attribute (Name ''psi_halfinf'') ''get_B'') [IntLit 0]
       [(''form'', StrLit ''B'')]),
     ExprStmt (Call (Attribute (Name ''B'') ''iproject'') [Name ''proj'', StrLit ''vL''] []),
     ExprStmt (Call (Attribute (Name ''psi_halfinf'') ''set_B'') [IntLit 0, Name ''B'']
       [(''form'', StrLit ''B'')]),
     ExprStmt (Call (Attribute (Name ''psi_halfinf'') ''set_SL'')
       [IntLit 0, Call (Attribute (Name ''np'') ''ones'') [IntLit 1, Name ''float''] []] []),
     ExprStmt (Call (Attribute (Name ''psi_halfinf'') ''canonical_form_finite'') [] []),
     ExprStmt (Call (Attribute (Name ''psi_halfinf'') ''test_sanity'') [] []),
     Assign (Name ''init_env_data_halfinf'')
       (Call (Attribute (Name ''init_env_data'') ''copy'') [] []),
     Assign (Subscript (Name ''init_env_data_halfinf'') (StrLit ''init_LP''))
       (Call (Attribute
          (Call (Name ''MPOEnvironment'')
             [Name ''psi0_i'', Attribute (Name ''M_i'') ''H_MPO'', Name ''psi0_i''] [])
          ''init_LP'') [IntLit 0, IntLit 0] []),
     Assign (Subscript (Name ''init_env_data_halfinf'') (StrLit ''age_LP'')) (IntLit 0)]"

definition halfinf_dmrg_cell :: "stmt list" where
  "halfinf_dmrg_cell =
    [Assign (Name ''eng_halfinf'') (Call (Attribute (Name ''dmrg'') ''TwoSiteDMRGEngine'')
       [Name ''psi_halfinf'', Name ''M_s'', Name ''dmrg_params'']
       [(''resume_data'',
         DictLit [(StrLit ''init_env_data'', Name ''init_env_data_halfinf'')])]),
     ExprStmt (Call (Attribute (Name ''eng_halfinf'') ''run'') [] [])]"

definition defect_model_cell :: "stmt list" where
  "defect_model_cell =
    [Assign (Name ''model_params_defect'') (DictLit
       [(StrLit ''J'', FloatLit ''1.''),
        (StrLit ''g'',
           BinOp (ListLit [FloatLit ''0.'']) Add
             (BinOp (ListLit [Subscript (Name ''model_params'') (StrLit ''g'')]) Mult
                (BinOp (Attribute (Name ''psi_halfinf'') ''L'') Sub (IntLit 1)))),
        (StrLit ''L'', Attribute (Name ''psi_halfinf'') ''L''),
        (StrLit ''bc_MPS'', StrLit ''segment''),
        (StrLit ''conserve'', StrLit ''best'')]),
     Assign (Name ''M_s_defect'') (Call (Name ''TFIChain'') [Name ''model_params_defect''] [])]"

definition defect_dmrg_cell :: "stmt list" where
  "defect_dmrg_cell =
    [Assign (Name ''psi_defect'') (Call (Attribute (Name ''psi_halfinf'') ''copy'') [] []),
     Assign (Name ''eng_defect'') (Call (Attribute (Name ''dmrg'') ''TwoSiteDMRGEngine'')
       [Name ''psi_defect'', Name ''M_s_defect'', Name ''dmrg_params'']
       [(''resume_data'',
         DictLit [(StrLit ''init_env_data'', Name ''init_env_data_halfinf'')])]),
     ExprStmt (Call (Attribute (Name ''eng_defect'') ''run'') [] [])]"

definition segment_notebook :: notebook where
  "segment_notebook =
    \<lparr>title = ''Excitations with DMRG and segment boundary conditions'', cells =
    [code_cell numpy_setup False None,
     code_cell tenpy_imports False None,
     code_cell segment_imports False None,
     code_cell infinite_model_cell True None,
     code_cell infinite_dmrg_cell True None,
     code_cell [ExprStmt (Name ''resume_psi0_i'')] False (Some OtherOut),
     code_cell [ExprStmt (entanglement_entropy_call ''psi0_i'')] False
       (Some (ArrayOut [0.15349, 0.15349])),
     code_cell extract_segment_cell False None,
     code_cell segment_dmrg_cell True None,
     code_cell [ExprStmt (entanglement_entropy_call ''psi1_s'')] False
       (Some (ArrayOut
         [0.15349, 0.15349, 0.15349, 0.15349, 0.15349, 0.15349, 0.15349, 0.15349, 0.15349,
          0.15349, 0.15349, 0.15349, 0.15349, 0.15349, 0.15349, 0.15349, 0.15349, 0.15349,
          0.15349, 0.15349, 0.15349])),
     code_cell
       [ExprStmt (BinOp (entanglement_entropy_call ''psi1_s'') Sub
          (Call (Attribute (Name ''np'') ''mean'') [entanglement_entropy_call ''psi0_i''] []))]
       False
       (Some (ArrayOut
         [0, 0, 0, 0, 0, 0, 0, 0, 0, 0, 0, 0, 0, 0, 0, 0, 0, 0, 0, 0, 0])),
     code_cell [] False None,
     code_cell project_left_boundary_cell False None,
     code_cell halfinf_dmrg_cell True (Some OtherOut),
     code_cell [ExprStmt (entanglement_entropy_call ''psi_halfinf'')] False
       (Some (ArrayOut
         [0, 0.13332, 0.14834, 0.15192, 0.15297, 0.15331, 0.15343, 0.15347, 0.15348,
          0.15349, 0.15349, 0.15349, 0.15349, 0.15349, 0.15349, 0.15349, 0.15349, 0.15349,
          0.15349, 0.15349, 0.15349])),
     code_cell [ExprStmt (expectation_value_call ''psi_halfinf'')] False
       (Some (ArrayOut
         [0.94082, 0.88667, 0.87957, 0.87797, 0.87753, 0.8774, 0.87735, 0.87734, 0.87733,
          0.87733, 0.87733, 0.87733, 0.87733, 0.87733, 0.87733, 0.87733, 0.87733, 0.87733,
          0.87733, 0.87733])),
     code_cell [ExprStmt (Attribute (Name ''psi_halfinf'') ''L'')] False (Some (IntOut 20)),
     code_cell defect_model_cell True None,
     code_cell defect_dmrg_cell True (Some OtherOut),
     code_cell [ExprStmt (entanglement_entropy_call ''psi_defect'')] False
       (Some (ArrayOut
         [0, 0.38126, 0.2482, 0.1929, 0.16987, 0.16032, 0.15635, 0.15469, 0.154,
          0.15371, 0.15358, 0.15353, 0.15351, 0.1535, 0.15349, 0.15349, 0.15349, 0.15349,
          0.15349, 0.15349, 0.15349])),
     code_cell [ExprStmt (expectation_value_call ''psi_defect'')] False
       (Some (ArrayOut
         [0.74536, 0.74534, 0.83553, 0.86216, 0.87149, 0.87501, 0.87639, 0.87694, 0.87717,
          0.87726, 0.8773, 0.87732, 0.87732, 0.87733, 0.87733, 0.87733, 0.87733, 0.87733,
          0.87733, 0.87733])),
     code_cell [] False None,
     code_cell [] False None]\<rparr>"

definition repo_notebooks :: "notebook list" where
  "repo_notebooks = [template_notebook, segment_notebook]"

section \<open>Reading the notebooks\<close>

definition nb_stmts :: "notebook \<Rightarrow> stmt list" where
  "nb_stmts nb = concat (map source (cells nb))"

definition imported_module :: "stmt \<Rightarrow> string option" where
  "imported_module s =
     (case s of Import m a \<Rightarrow> Some m | ImportFrom m ns \<Rightarrow> Some m | _ \<Rightarrow> None)"

definition top_package :: "string \<Rightarrow> string" where
  "top_package m = takeWhile (\<lambda>c. c \<noteq> CHR ''.'') m"

definition stmt_value :: "stmt \<Rightarrow> expr option" where
  "stmt_value s = (case s of Assign t v \<Rightarrow> Some v | ExprStmt v \<Rightarrow> Some v | _ \<Rightarrow> None)"

text \<open>
  A cell displays the value of its last statement when that is an expression; the
  captured \<open>result\<close> is that value as printed.
\<close>

definition displayed :: "cell \<Rightarrow> expr option" where
  "displayed c = (case rev (source c) of ExprStmt e # ss \<Rightarrow> Some e | _ \<Rightarrow> None)"

subsection \<open>The shape of the code\<close>

definition simple_stmt :: "stmt \<Rightarrow> bool" where
  "simple_stmt s =
     (case s of Import m a \<Rightarrow> True | ImportFrom m ns \<Rightarrow> True
              | Assign t v \<Rightarrow> True | ExprStmt e \<Rightarrow> True | _ \<Rightarrow> False)"

definition dict_construction :: "stmt \<Rightarrow> string option" where
  "dict_construction s = (case s of Assign (Name x) (DictLit kvs) \<Rightarrow> Some x | _ \<Rightarrow> None)"

definition is_import :: "stmt \<Rightarrow> bool" where
  "is_import s = (imported_module s \<noteq> None)"

definition is_call_step :: "stmt \<Rightarrow> bool" where
  "is_call_step s = (case stmt_value s of Some (Call f as ks) \<Rightarrow> True | _ \<Rightarrow> False)"

definition is_dict_construction :: "stmt \<Rightarrow> bool" where
  "is_dict_construction s = (dict_construction s \<noteq> None)"

text \<open>
  The steps that are neither an import, nor a call, nor the construction of a parameter
  dictionary.
\<close>

definition glue_steps :: "notebook \<Rightarrow> stmt list" where
  "glue_steps nb =
     filter (\<lambda>s. \<not> is_import s \<and> \<not> is_call_step s \<and> \<not> is_dict_construction s) (nb_stmts nb)"

definition external_packages :: "string list" where
  "external_packages = [''numpy'', ''scipy'', ''matplotlib'', ''tenpy'']"

definition external_import :: "stmt \<Rightarrow> bool" where
  "external_import s =
     (case imported_module s of
        Some m \<Rightarrow> top_package m \<in> set external_packages
      | None \<Rightarrow> True)"

text \<open>
  Every call of an expression, outermost first, and the name at the root of a callee
  (\<open>np\<close> for \<open>np.zeros(...)\<close>, \<open>MPOEnvironment\<close> for \<open>MPOEnvironment(...).init_LP(0, 0)\<close>).
\<close>

fun calls_of :: "expr \<Rightarrow> expr list" where
  "calls_of (Call f as ks) =
     Call f as ks # calls_of f @ concat (map calls_of as) @
       concat (map (\<lambda>kv. calls_of (snd kv)) ks)"
| "calls_of (Attribute e a) = calls_of e"
| "calls_of (Subscript e i) = calls_of e @ calls_of i"
| "calls_of (DictLit kvs) = concat (map (\<lambda>kv. calls_of (fst kv) @ calls_of (snd kv)) kvs)"
| "calls_of (ListLit es) = concat (map calls_of es)"
| "calls_of (TupleLit es) = concat (map calls_of es)"
| "calls_of (BinOp a oper b) = calls_of a @ calls_of b"
| "calls_of e = []"

fun callee_root :: "expr \<Rightarrow> string option" where
  "callee_root (Name x) = Some x"
| "callee_root (Attribute e a) = callee_root e"
| "callee_root (Call f as ks) = callee_root f"
| "callee_root (Subscript e i) = callee_root e"
| "callee_root e = None"

definition stmt_calls :: "stmt \<Rightarrow> expr list" where
  "stmt_calls s =
     (case s of Assign t v \<Rightarrow> calls_of v @ calls_of t | ExprStmt e \<Rightarrow> calls_of e | _ \<Rightarrow> [])"

fun target_names :: "expr \<Rightarrow> string list" where
  "target_names (Name x) = [x]"
| "target_names (TupleLit es) = concat (map target_names es)"
| "target_names (ListLit es) = concat (map target_names es)"
| "target_names e = []"

definition binds :: "stmt \<Rightarrow> string list" where
  "binds s =
     (case s of
        Import m a \<Rightarrow> (case a of Some x \<Rightarrow> [x] | None \<Rightarrow> [top_package m])
      | ImportFrom m ns \<Rightarrow> ns
      | Assign t v \<Rightarrow> target_names t
      | FunctionDef f ps body \<Rightarrow> [f]
      | ClassDef c body \<Rightarrow> [c]
      | _ \<Rightarrow> [])"

text \<open>
  Run top to bottom, every call of a statement has a callee rooted in a name that is
  bound by then: by an import, by an earlier assignment, or among the names given at the
  start (the builtins used).
\<close>

fun well_rooted :: "string list \<Rightarrow> stmt list \<Rightarrow> bool" where
  "well_rooted names [] = True"
| "well_rooted names (s # ss) =
     (list_all (\<lambda>c. case callee_root c of Some r \<Rightarrow> r \<in> set names | None \<Rightarrow> False)
        (stmt_calls s) \<and>
      well_rooted (binds s @ names) ss)"

subsection \<open>What a notebook does\<close>

definition imports_library :: "notebook \<Rightarrow> bool" where
  "imports_library nb =
     list_ex (\<lambda>s. map_option top_package (imported_module s) = Some ''tenpy'') (nb_stmts nb)"

text \<open>
  What a name stands for when a statement is reached: a module, class or function with
  its dotted path (\<open>dmrg\<close> is \<open>tenpy.algorithms.dmrg\<close> after
  \<open>from tenpy.algorithms import dmrg\<close>), a dictionary written as a literal, an engine
  with the path of the class that built it, or anything else. The latest binding of a
  name counts, as in Python: new bindings are put in front.
\<close>

datatype denotes = Path string | ParamDict | Engine string | Other

type_synonym scope = "(string \<times> denotes) list"

fun dotted_path :: "scope \<Rightarrow> expr \<Rightarrow> string option" where
  "dotted_path ns (Name x) = (case map_of ns x of Some (Path p) \<Rightarrow> Some p | _ \<Rightarrow> None)"
| "dotted_path ns (Attribute e a) = map_option (\<lambda>p. p @ ''.'' @ a) (dotted_path ns e)"
| "dotted_path ns e = None"

text \<open>
  An engine is an object built by calling a class of a module of \<open>tenpy.algorithms\<close>.
\<close>

definition algorithm_class :: "string \<Rightarrow> bool" where
  "algorithm_class p = (take 17 p = ''tenpy.algorithms.'')"

definition value_denotes :: "scope \<Rightarrow> expr \<Rightarrow> denotes" where
  "value_denotes ns v =
     (case v of
        DictLit kvs \<Rightarrow> ParamDict
      | Call f as ks \<Rightarrow>
          (case dotted_path ns f of
             Some p \<Rightarrow> if algorithm_class p then Engine p else Other
           | None \<Rightarrow> Other)
      | _ \<Rightarrow> (case dotted_path ns v of Some p \<Rightarrow> Path p | None \<Rightarrow> Other))"

definition bindings :: "scope \<Rightarrow> stmt \<Rightarrow> scope" where
  "bindings ns s =
     (case s of
        Import m a \<Rightarrow>
          (case a of Some x \<Rightarrow> [(x, Path m)] | None \<Rightarrow> [(top_package m, Path (top_package m))])
      | ImportFrom m xs \<Rightarrow> map (\<lambda>x. (x, Path (m @ ''.'' @ x))) xs
      | Assign t v \<Rightarrow>
          (case t of
             Name x \<Rightarrow> [(x, value_denotes ns v)]
           | _ \<Rightarrow> map (\<lambda>x. (x, Other)) (target_names t))
      | _ \<Rightarrow> map (\<lambda>x. (x, Other)) (binds s))"

text \<open>Each statement of a sequence with what the names stand for when it is reached.\<close>

fun reached :: "scope \<Rightarrow> stmt list \<Rightarrow> (scope \<times> stmt) list" where
  "reached ns [] = []"
| "reached ns (s # ss) = (ns, s) # reached (bindings ns s @ ns) ss"

text \<open>
  The parameter dictionaries passed to calls: for every call of a statement and every
  argument of it that is a name standing for a dictionary literal, the name and the
  dotted path of the callee.
\<close>

definition dict_arguments :: "scope \<Rightarrow> expr \<Rightarrow> (string \<times> string option) list" where
  "dict_arguments ns c =
     (case c of
        Call f as ks \<Rightarrow>
          concat (map (\<lambda>a. case a of
                              Name x \<Rightarrow> (if map_of ns x = Some ParamDict
                                          then [(x, dotted_path ns f)] else [])
                            | _ \<Rightarrow> []) (as @ map snd ks))
      | _ \<Rightarrow> [])"

definition parameter_uses :: "notebook \<Rightarrow> (string \<times> string option) list" where
  "parameter_uses nb =
     concat (map (\<lambda>(ns, s). concat (map (dict_arguments ns) (stmt_calls s)))
       (reached [] (nb_stmts nb)))"

text \<open>
  The engines run: for every call \<open>x.run(...)\<close> of a statement where \<open>x\<close> stands for an
  engine, the name and the path of the engine's class.
\<close>

definition engine_run :: "scope \<Rightarrow> expr \<Rightarrow> (string \<times> string) list" where
  "engine_run ns c =
     (case c of
        Call (Attribute (Name x) m) as ks \<Rightarrow>
          (case map_of ns x of
             Some (Engine p) \<Rightarrow> if m = ''run'' then [(x, p)] else []
           | _ \<Rightarrow> [])
      | _ \<Rightarrow> [])"

definition engine_runs :: "notebook \<Rightarrow> (string \<times> string) list" where
  "engine_runs nb =
     concat (map (\<lambda>(ns, s). concat (map (engine_run ns) (stmt_calls s)))
       (reached [] (nb_stmts nb)))"

text \<open>
  The measurements displayed: the cells with a captured result whose displayed expression
  is \<open>obj.entanglement_entropy(...)\<close> or \<open>obj.expectation_value(...)\<close>, as the object and
  the method.
\<close>

definition displayed_measurement :: "cell \<Rightarrow> (expr \<times> string) list" where
  "displayed_measurement c =
     (case (result c, displayed c) of
        (Some r, Some (Call (Attribute obj m) as ks)) \<Rightarrow>
          if m \<in> set [''entanglement_entropy'', ''expectation_value''] then [(obj, m)] else []
      | _ \<Rightarrow> [])"

definition displayed_measurements :: "notebook \<Rightarrow> (expr \<times> string) list" where
  "displayed_measurements nb = concat (map displayed_measurement (cells nb))"

subsection \<open>Failures\<close>

text \<open>
  The statements through which Python code handles or raises an error itself, at any
  depth of nesting.
\<close>

fun error_branch :: "stmt \<Rightarrow> bool" where
  "error_branch (Try body handlers final) = True"
| "error_branch (Raise e) = True"
| "error_branch (Assert e) = True"
| "error_branch (IfElse c a b) = (list_ex error_branch a \<or> list_ex error_branch b)"
| "error_branch (For t e body) = list_ex error_branch body"
| "error_branch (While c body) = list_ex error_branch body"
| "error_branch (With e body) = True"
| "error_branch (FunctionDef f ps body) = list_ex error_branch body"
| "error_branch (ClassDef c body) = list_ex error_branch body"
| "error_branch s = False"

text \<open>
  Running statements in sequence. \<open>prim\<close> is what one statement does to the state of the
  kernel: it returns the new state, or the exception raised together with the state
  reached. Python has no handler inside an expression, so for a simple statement
  \<open>prim\<close> fails exactly when a call or an operation inside the statement raises. The
  first failure ends the run.
\<close>

fun run_stmts :: "(stmt \<Rightarrow> 'st \<Rightarrow> ('e \<times> 'st) + 'st) \<Rightarrow> stmt list \<Rightarrow> 'st \<Rightarrow> ('e \<times> 'st) + 'st" where
  "run_stmts prim [] st = Inr st"
| "run_stmts prim (s # ss) st =
     (case prim s st of Inl err \<Rightarrow> Inl err | Inr st' \<Rightarrow> run_stmts prim ss st')"

text \<open>
  Running a notebook runs its cells in order. A failing cell stops the run, unless the
  cell is tagged \<open>raises-exception\<close>: then the run goes on with the next cell from the
  state reached.
\<close>

fun run_cells :: "(stmt \<Rightarrow> 'st \<Rightarrow> ('e \<times> 'st) + 'st) \<Rightarrow> cell list \<Rightarrow> 'st \<Rightarrow> ('e \<times> 'st) + 'st" where
  "run_cells prim [] st = Inr st"
| "run_cells prim (c # cs) st =
     (case run_stmts prim (source c) st of
        Inl (e, st') \<Rightarrow>
          if ''raises-exception'' \<in> set (tags c) then run_cells prim cs st' else Inl (e, st')
      | Inr st' \<Rightarrow> run_cells prim cs st')"

definition run_notebook :: "(stmt \<Rightarrow> 'st \<Rightarrow> ('e \<times> 'st) + 'st) \<Rightarrow> notebook \<Rightarrow> 'st \<Rightarrow> ('e \<times> 'st) + 'st" where
  "run_notebook prim nb st = run_cells prim (cells nb) st"

text \<open>
  A statement \<open>s\<close> is reached in state \<open>st'\<close> when all statements before it ran without
  failure from \<open>st\<close>.
\<close>

definition fails_at :: "(stmt \<Rightarrow> 'st \<Rightarrow> ('e \<times> 'st) + 'st) \<Rightarrow> stmt list \<Rightarrow> 'st \<Rightarrow> ('e \<times> 'st) \<Rightarrow> bool" where
  "fails_at prim ss st err =
     (\<exists>pre s post st'. ss = pre @ s # post \<and> run_stmts prim pre st = Inr st' \<and>
        prim s st' = Inl err)"

section \<open>The continuous-integration workflow\<close>

text \<open>
  The workflow \<^emph>\<open>Test notebooks\<close>. A step either uses an action with its inputs or
  runs shell commands; a command is kept as its list of arguments, a quoted argument as
  one entry.
\<close>

datatype action = Uses string "(string \<times> string) list" | Run "string list list"

record step =
  step_name :: string
  action :: action

datatype gh_value = Null | Boolean bool

text \<open>
  The job's condition compares \<open>github.event.pull_request.draft\<close> with a literal.
\<close>

datatype gh_condition = PullRequestDraftEquals gh_value

record workflow =
  workflow_name :: string
  push_branches :: "string list"
  pull_request_types :: "string list"
  job_if :: gh_condition
  runs_on :: string
  env :: "(string \<times> string) list"
  steps :: "step list"

definition test_notebooks :: workflow where
  "test_notebooks =
    \<lparr>workflow_name = ''Test notebooks'',
     push_branches = [''main''],
     pull_request_types = [''opened'', ''synchronize'', ''reopened'', ''ready_for_review''],
     job_if = PullRequestDraftEquals (Boolean False),
     runs_on = ''ubuntu-latest'',
     env = [(''PY_COLORS'', ''1'')],
     steps =
      [\<lparr>step_name = ''Checkout'',
        action = Uses ''actions/checkout@v4'' [(''submodules'', ''recursive'')]\<rparr>,
       \<lparr>step_name = ''Set up Python 3.12'',
        action = Uses ''actions/setup-python@v5'' [(''python-version'', ''3.12'')]\<rparr>,
       \<lparr>step_name = ''Install dependencies'',
        action = Run
         [[''python'', ''-m'', ''pip'', ''install'', ''--upgrade'', ''pip''],
          [''python'', ''-m'', ''pip'', ''install'', ''--upgrade'', ''setuptools'', ''build''],
          [''python'', ''-m'', ''pip'', ''install'', ''--upgrade'', ''pytest'', ''nbmake''],
          [''python'', ''-m'', ''pip'', ''install'', ''--upgrade'', ''numpy'', ''scipy'',
           ''matplotlib'', ''pyyaml'', ''h5py'']]\<rparr>,
       \<lparr>step_name = ''Build and install tenpy'',
        action = Run
         [[''python'', ''-m'', ''pip'', ''install'',
           ''physics-tenpy @ git+https://github.com/tenpy/tenpy'']]\<rparr>,
       \<lparr>step_name = ''Run pytest on notebooks'',
        action = Run
         [[''pytest'', ''--nbmake'', ''.'',
           ''--ignore=12_dmrg_mixer.ipynb'',
           ''--ignore=14_segment_half_infinite.ipynb'',
           ''-W'', ''ignore'']]\<rparr>]\<rparr>"

text \<open>
  An event is a push to a branch, or an activity on a pull request that is a draft or
  not. The workflow is triggered by the pushes and the activities it lists.
\<close>

datatype event = Push string | PullRequest string bool

definition triggers :: "workflow \<Rightarrow> event \<Rightarrow> bool" where
  "triggers w ev =
     (case ev of
        Push branch \<Rightarrow> branch \<in> set (push_branches w)
      | PullRequest activity draft \<Rightarrow> activity \<in> set (pull_request_types w))"

text \<open>
  \<open>github.event.pull_request.draft\<close> is null on a push. The \<open>==\<close> of workflow
  expressions is loose: operands of different types are compared as numbers, null and
  false as 0, true as 1.
\<close>

definition pull_request_draft :: "event \<Rightarrow> gh_value" where
  "pull_request_draft ev =
     (case ev of Push branch \<Rightarrow> Null | PullRequest activity draft \<Rightarrow> Boolean draft)"

definition gh_number :: "gh_value \<Rightarrow> int" where
  "gh_number v = (case v of Null \<Rightarrow> 0 | Boolean b \<Rightarrow> (if b then 1 else 0))"

definition holds :: "gh_condition \<Rightarrow> event \<Rightarrow> bool" where
  "holds c ev =
     (case c of PullRequestDraftEquals v \<Rightarrow> gh_number (pull_request_draft ev) = gh_number v)"

definition job_runs :: "workflow \<Rightarrow> event \<Rightarrow> bool" where
  "job_runs w ev = (triggers w ev \<and> holds (job_if w) ev)"

text \<open>
  \<open>pytest --nbmake .\<close> run at the repository's root. The files considered here are those
  at the root itself, given by their names: there \<open>nbmake\<close> collects every file whose name
  matches \<open>*ipynb\<close> and executes it as a test, and a name given to \<open>--ignore\<close> is not
  collected. Files in directories below the root are not modelled.
\<close>

definition pytest_commands :: "workflow \<Rightarrow> string list list" where
  "pytest_commands w =
     concat (map (\<lambda>st. case action st of
                          Run cmds \<Rightarrow> filter (\<lambda>argv. take 1 argv = [''pytest'']) cmds
                        | Uses a inputs \<Rightarrow> []) (steps w))"

definition ignored :: "string list \<Rightarrow> string list" where
  "ignored argv = map (drop 9) (filter (\<lambda>a. take 9 a = ''--ignore='') argv)"

definition root_level :: "string \<Rightarrow> bool" where
  "root_level name = (name \<noteq> [] \<and> CHR ''/'' \<notin> set name)"

definition is_notebook :: "string \<Rightarrow> bool" where
  "is_notebook name = (drop (length name - 5) name = ''ipynb'')"

definition collects :: "string list \<Rightarrow> string \<Rightarrow> bool" where
  "collects argv name =
     (''--nbmake'' \<in> set argv \<and> ''.'' \<in> set argv \<and> is_notebook name \<and>
      name \<notin> set (ignored argv))"

definition ci_executes :: "workflow \<Rightarrow> event \<Rightarrow> string \<Rightarrow> bool" where
  "ci_executes w ev name =
     (job_runs w ev \<and> list_ex (\<lambda>argv. collects argv name) (pytest_commands w))"

text \<open>
  A run for trying the model out: every statement succeeds and is counted, except the
  last engine run \<open>eng_defect.run()\<close>, which raises.
\<close>

definition failing_run :: "stmt \<Rightarrow> nat \<Rightarrow> (string \<times> nat) + nat" where
  "failing_run s n =
     (if s = ExprStmt (Call (Attribute (Name ''eng_defect'') ''run'') [] [])
      then Inl (''error'', n) else Inr (Suc n))"

section \<open>Properties\<close>

subsection \<open>The workflow is straight-line code over imported libraries\<close>

text \<open>
  C1, as amended. Every step of the segment notebook is a simple statement: an import,
  an assignment or an expression; there is no function or class definition, loop,
  conditional, \<open>with\<close>, \<open>try\<close>, \<open>raise\<close> or \<open>assert\<close>. Every import is of numpy, scipy,
  matplotlib or tenpy, and every call has its callee rooted in an imported name, in a
  variable assigned earlier, or in the builtin \<open>len\<close>. The steps are imports, calls and
  constructions of parameter dictionaries, except for eight steps of glue: setting the
  figure resolution, three displayed values, the constant \<open>enlarge = 10\<close>, reading
  \<open>segment_first_last\<close>, setting the projection mask at \<open>np.argmax(S)\<close>, and setting
  \<open>age_LP\<close> to 0.
\<close>

theorem segment_workflow_straight_line:
  "list_all simple_stmt (nb_stmts segment_notebook) \<and>
   list_all external_import (nb_stmts segment_notebook) \<and>
   well_rooted [''len''] (nb_stmts segment_notebook) \<and>
   glue_steps segment_notebook =
     [Assign (Subscript (Attribute (Name ''plt'') ''rcParams'') (StrLit ''figure.dpi''))
        (IntLit 150),
      ExprStmt (Name ''resume_psi0_i''),
      Assign (Name ''enlarge'') (IntLit 10),
      Assign (TupleLit [Name ''first'', Name ''last''])
        (Attribute (Attribute (Name ''M_s'') ''lat'') ''segment_first_last''),
      ExprStmt (BinOp (entanglement_entropy_call ''psi1_s'') Sub
        (Call (Attribute (Name ''np'') ''mean'') [entanglement_entropy_call ''psi0_i''] [])),
      Assign (Subscript (Name ''proj'')
        (Call (Attribute (Name ''np'') ''argmax'') [Name ''S''] [])) (BoolLit True),
      Assign (Subscript (Name ''init_env_data_halfinf'') (StrLit ''age_LP'')) (IntLit 0),
      ExprStmt (Attribute (Name ''psi_halfinf'') ''L'')]"
  by code_simp

text \<open>
  The claim as stated fails at two steps of the workflow. \<open>enlarge = 10\<close> binds a
  constant: it holds no call at all and builds no dictionary. \<open>proj[np.argmax(S)] = True\<close>
  of the projection cell stores a constant in the mask at the index of the largest
  Schmidt value: the step is not a call and builds no dictionary.
\<close>

theorem glue_steps_counterexample:
  "Assign (Name ''enlarge'') (IntLit 10) \<in> set (nb_stmts segment_notebook) \<and>
   stmt_calls (Assign (Name ''enlarge'') (IntLit 10)) = [] \<and>
   \<not> is_import (Assign (Name ''enlarge'') (IntLit 10)) \<and>
   \<not> is_call_step (Assign (Name ''enlarge'') (IntLit 10)) \<and>
   \<not> is_dict_construction (Assign (Name ''enlarge'') (IntLit 10)) \<and>
   Assign (Subscript (Name ''proj'') (Call (Attribute (Name ''np'') ''argmax'') [Name ''S''] []))
     (BoolLit True) \<in> set (nb_stmts segment_notebook) \<and>
   \<not> is_import (Assign (Subscript (Name ''proj'')
       (Call (Attribute (Name ''np'') ''argmax'') [Name ''S''] [])) (BoolLit True)) \<and>
   \<not> is_call_step (Assign (Subscript (Name ''proj'')
       (Call (Attribute (Name ''np'') ''argmax'') [Name ''S''] [])) (BoolLit True)) \<and>
   \<not> is_dict_construction (Assign (Subscript (Name ''proj'')
       (Call (Attribute (Name ''np'') ''argmax'') [Name ''S''] [])) (BoolLit True))"
  by code_simp

subsection \<open>What each notebook does\<close>

text \<open>
  C2, as amended. Every notebook imports the library. The segment notebook binds the
  parameter dictionaries \<open>model_params\<close>, \<open>dmrg_params\<close>, \<open>resume_psi1_s\<close> and
  \<open>model_params_defect\<close> and passes them to \<open>TFIChain\<close> and to \<open>dmrg.TwoSiteDMRGEngine\<close>; it
  runs four engines, each built by the class \<open>TwoSiteDMRGEngine\<close> of
  \<open>tenpy.algorithms.dmrg\<close>; and it displays the entanglement entropy of four states and
  the expectation values of two. The template notebook, apart from its imports, only
  sets numpy's print options and the figure resolution, sets up logging and prints the
  configuration of the library.
\<close>

theorem notebooks_import_segment_notebook_runs:
  "list_all imports_library repo_notebooks \<and>
   parameter_uses segment_notebook =
     [(''model_params'', Some ''tenpy.models.tf_ising.TFIChain''),
      (''dmrg_params'', Some ''tenpy.algorithms.dmrg.TwoSiteDMRGEngine''),
      (''dmrg_params'', Some ''tenpy.algorithms.dmrg.TwoSiteDMRGEngine''),
      (''resume_psi1_s'', Some ''tenpy.algorithms.dmrg.TwoSiteDMRGEngine''),
      (''dmrg_params'', Some ''tenpy.algorithms.dmrg.TwoSiteDMRGEngine''),
      (''model_params_defect'', Some ''tenpy.models.tf_ising.TFIChain''),
      (''dmrg_params'', Some ''tenpy.algorithms.dmrg.TwoSiteDMRGEngine'')] \<and>
   engine_runs segment_notebook =
     [(''eng0_i'', ''tenpy.algorithms.dmrg.TwoSiteDMRGEngine''),
      (''eng'', ''tenpy.algorithms.dmrg.TwoSiteDMRGEngine''),
      (''eng_halfinf'', ''tenpy.algorithms.dmrg.TwoSiteDMRGEngine''),
      (''eng_defect'', ''tenpy.algorithms.dmrg.TwoSiteDMRGEngine'')] \<and>
   displayed_measurements segment_notebook =
     [(Name ''psi0_i'', ''entanglement_entropy''),
      (Name ''psi1_s'', ''entanglement_entropy''),
      (Name ''psi_halfinf'', ''entanglement_entropy''),
      (Name ''psi_halfinf'', ''expectation_value''),
      (Name ''psi_defect'', ''entanglement_entropy''),
      (Name ''psi_defect'', ''expectation_value'')] \<and>
   filter (\<lambda>s. \<not> is_import s) (nb_stmts template_notebook) =
     [ExprStmt (Call (Attribute (Name ''np'') ''set_printoptions'') []
        [(''precision'', IntLit 5), (''suppress'', BoolLit True), (''linewidth'', IntLit 100)]),
      Assign (Subscript (Attribute (Name ''plt'') ''rcParams'') (StrLit ''figure.dpi''))
        (IntLit 150),
      ExprStmt (Call (Attribute (Attribute (Attribute (Name ''tenpy'') ''tools'') ''misc'')
        ''setup_logging'') [] [(''to_stdout'', StrLit ''INFO'')]),
      ExprStmt (Call (Attribute (Name ''tenpy'') ''show_config'') [] [])]"
  by code_simp

text \<open>
  The template notebook is a notebook of the repository that imports the library and
  does nothing else of what the claim lists: it passes no parameter dictionary to any
  call, runs no engine of any class, and displays no entanglement entropy and no
  expectation value.
\<close>

theorem template_notebook_counterexample:
  "template_notebook \<in> set repo_notebooks \<and>
   imports_library template_notebook \<and>
   parameter_uses template_notebook = [] \<and>
   engine_runs template_notebook = [] \<and>
   displayed_measurements template_notebook = []"
  by code_simp

subsection \<open>Which notebooks the workflow executes\<close>

lemma pytest_commands_test_notebooks:
  "pytest_commands test_notebooks =
     [[''pytest'', ''--nbmake'', ''.'', ''--ignore=12_dmrg_mixer.ipynb'',
       ''--ignore=14_segment_half_infinite.ipynb'', ''-W'', ''ignore'']]"
  by (simp add: pytest_commands_def test_notebooks_def)

lemma ignored_test_notebooks:
  "ignored [''pytest'', ''--nbmake'', ''.'', ''--ignore=12_dmrg_mixer.ipynb'',
       ''--ignore=14_segment_half_infinite.ipynb'', ''-W'', ''ignore''] =
     [''12_dmrg_mixer.ipynb'', ''14_segment_half_infinite.ipynb'']"
  by (simp add: ignored_def)

lemma collected_test_notebooks:
  "list_ex (\<lambda>argv. collects argv name) (pytest_commands test_notebooks) \<longleftrightarrow>
     is_notebook name \<and> name \<noteq> ''12_dmrg_mixer.ipynb'' \<and>
     name \<noteq> ''14_segment_half_infinite.ipynb''"
  unfolding pytest_commands_test_notebooks
  by (simp add: collects_def ignored_test_notebooks)

lemma job_runs_test_notebooks:
  "job_runs test_notebooks ev \<longleftrightarrow>
     ev = Push ''main'' \<or>
     (\<exists>activity. ev = PullRequest activity False \<and>
        activity \<in> set [''opened'', ''synchronize'', ''reopened'', ''ready_for_review''])"
proof (cases ev)
  case (Push branch)
  then show ?thesis
    by (simp add: job_runs_def triggers_def holds_def pull_request_draft_def gh_number_def
        test_notebooks_def)
next
  case (PullRequest activity draft)
  then show ?thesis
    by (cases draft)
      (auto simp: job_runs_def triggers_def holds_def pull_request_draft_def gh_number_def
        test_notebooks_def)
qed

text \<open>
  C3, as amended. The job runs on a push to \<open>main\<close> and on a pull request that is not a
  draft and is opened, synchronized, reopened or marked ready for review. Of the files at
  the root of the repository, it then executes under \<open>pytest --nbmake\<close> every notebook
  (a name matching \<open>*ipynb\<close>) except \<open>12_dmrg_mixer.ipynb\<close> and
  \<open>14_segment_half_infinite.ipynb\<close>, and it executes none of them on any other event.
\<close>

theorem ci_executes_all_but_ignored:
  assumes "root_level name"
  shows "ci_executes test_notebooks ev name \<longleftrightarrow>
     (ev = Push ''main'' \<or>
      (\<exists>activity. ev = PullRequest activity False \<and>
         activity \<in> set [''opened'', ''synchronize'', ''reopened'', ''ready_for_review''])) \<and>
     is_notebook name \<and> name \<noteq> ''12_dmrg_mixer.ipynb'' \<and>
     name \<noteq> ''14_segment_half_infinite.ipynb''"
  unfolding ci_executes_def
  by (simp only: job_runs_test_notebooks collected_test_notebooks)

theorem ci_executes_all_but_ignored_witness:
  "root_level ''_template.ipynb'' \<and>
   ci_executes test_notebooks (Push ''main'') ''_template.ipynb'' \<and>
   ci_executes test_notebooks (PullRequest ''synchronize'' False) ''_template.ipynb'' \<and>
   \<not> ci_executes test_notebooks (PullRequest ''synchronize'' True) ''_template.ipynb''"
proof -
  have root: "root_level ''_template.ipynb''"
    by (simp add: root_level_def)
  have nb: "is_notebook ''_template.ipynb''"
    by (simp add: is_notebook_def)
  from ci_executes_all_but_ignored [OF root] nb root show ?thesis
    by simp
qed

text \<open>
  On a push to \<open>main\<close> the job runs, and the notebook \<open>12_dmrg_mixer.ipynb\<close> at the root
  is not executed: the command passes it to \<open>--ignore\<close>.
\<close>

theorem ignored_notebook_counterexample:
  "root_level ''12_dmrg_mixer.ipynb'' \<and>
   is_notebook ''12_dmrg_mixer.ipynb'' \<and>
   job_runs test_notebooks (Push ''main'') \<and>
   \<not> ci_executes test_notebooks (Push ''main'') ''12_dmrg_mixer.ipynb''"
  by code_simp

subsection \<open>Failures reach the caller\<close>

lemma run_stmts_append:
  "run_stmts prim (xs @ ys) st =
     (case run_stmts prim xs st of Inl err \<Rightarrow> Inl err | Inr st' \<Rightarrow> run_stmts prim ys st')"
  by (induction xs arbitrary: st) (auto split: sum.splits)

text \<open>
  A sequence of statements fails with an error exactly when a statement that is reached
  fails with that error.
\<close>

lemma run_stmts_fails_at:
  "run_stmts prim ss st = Inl err \<longleftrightarrow> fails_at prim ss st err"
proof (induction ss arbitrary: st)
  case Nil
  show ?case by (simp add: fails_at_def)
next
  case (Cons s ss)
  show ?case
  proof (cases "prim s st")
    case (Inl err')
    have "fails_at prim (s # ss) st err \<longleftrightarrow> err' = err"
    proof
      assume "fails_at prim (s # ss) st err"
      then obtain pre t post st' where
        split: "s # ss = pre @ t # post" and pre: "run_stmts prim pre st = Inr st'"
        and t: "prim t st' = Inl err"
        unfolding fails_at_def by blast
      show "err' = err"
      proof (cases pre)
        case Nil
        with split pre t Inl show ?thesis by simp
      next
        case (Cons p ps)
        with split pre Inl show ?thesis by simp
      qed
    next
      assume "err' = err"
      with Inl have "s # ss = [] @ s # ss \<and> run_stmts prim [] st = Inr st \<and> prim s st = Inl err"
        by simp
      then show "fails_at prim (s # ss) st err"
        unfolding fails_at_def by blast
    qed
    with Inl show ?thesis by simp
  next
    case (Inr st1)
    have "fails_at prim (s # ss) st err \<longleftrightarrow> fails_at prim ss st1 err"
    proof
      assume "fails_at prim (s # ss) st err"
      then obtain pre t post st' where
        split: "s # ss = pre @ t # post" and pre: "run_stmts prim pre st = Inr st'"
        and t: "prim t st' = Inl err"
        unfolding fails_at_def by blast
      show "fails_at prim ss st1 err"
      proof (cases pre)
        case Nil
        with split pre t Inr show ?thesis by simp
      next
        case (Cons p ps)
        with split pre Inr have "ss = ps @ t # post \<and> run_stmts prim ps st1 = Inr st'"
          by simp
        with t show ?thesis unfolding fails_at_def by blast
      qed
    next
      assume "fails_at prim ss st1 err"
      then obtain pre t post st' where
        "ss = pre @ t # post" "run_stmts prim pre st1 = Inr st'" "prim t st' = Inl err"
        unfolding fails_at_def by blast
      with Inr have "s # ss = (s # pre) @ t # post \<and> run_stmts prim (s # pre) st = Inr st' \<and>
          prim t st' = Inl err"
        by simp
      then show "fails_at prim (s # ss) st err"
        unfolding fails_at_def by blast
    qed
    with Inr Cons.IH show ?thesis by simp
  qed
qed

text \<open>Without the tag, running the cells is running their statements in one sequence.\<close>

lemma run_cells_untagged:
  "list_all (\<lambda>c. ''raises-exception'' \<notin> set (tags c)) cs \<Longrightarrow>
   run_cells prim cs st = run_stmts prim (concat (map source cs)) st"
  by (induction cs arbitrary: st) (auto simp: run_stmts_append split: sum.splits)

lemma untagged_template:
  "list_all (\<lambda>c. ''raises-exception'' \<notin> set (tags c)) (cells template_notebook)"
  by code_simp

lemma untagged_segment:
  "list_all (\<lambda>c. ''raises-exception'' \<notin> set (tags c)) (cells segment_notebook)"
  by code_simp

lemma no_error_branch_template: "\<not> list_ex error_branch (nb_stmts template_notebook)"
  by code_simp

lemma no_error_branch_segment: "\<not> list_ex error_branch (nb_stmts segment_notebook)"
  by code_simp

text \<open>
  C5. No notebook has a statement that handles or raises an error (\<open>try\<close>, \<open>with\<close>,
  \<open>raise\<close>, \<open>assert\<close>, at any depth), and no cell is tagged to let a failure pass. So,
  whatever the statements do, a run of a notebook fails with an error exactly when a
  statement that is reached fails with that very error: nothing catches it, changes it
  or goes on after it.
\<close>

theorem failures_propagate_unchanged:
  assumes "nb \<in> set repo_notebooks"
  shows "\<not> list_ex error_branch (nb_stmts nb) \<and>
         list_all (\<lambda>c. ''raises-exception'' \<notin> set (tags c)) (cells nb) \<and>
         (run_notebook prim nb st = Inl err \<longleftrightarrow> fails_at prim (nb_stmts nb) st err)"
proof -
  from assms have nb: "nb = template_notebook \<or> nb = segment_notebook"
    by (simp add: repo_notebooks_def)
  then have untagged: "list_all (\<lambda>c. ''raises-exception'' \<notin> set (tags c)) (cells nb)"
    using untagged_template untagged_segment by blast
  from nb have plain: "\<not> list_ex error_branch (nb_stmts nb)"
    using no_error_branch_template no_error_branch_segment by blast
  have "run_notebook prim nb st = run_stmts prim (nb_stmts nb) st"
    unfolding run_notebook_def nb_stmts_def by (rule run_cells_untagged [OF untagged])
  then have "run_notebook prim nb st = Inl err \<longleftrightarrow> fails_at prim (nb_stmts nb) st err"
    by (simp add: run_stmts_fails_at)
  with plain untagged show ?thesis by blast
qed

text \<open>
  When \<open>eng_defect.run()\<close> raises after the 57 statements before it have run, the
  notebook fails with that error in the state reached there.
\<close>

theorem failures_propagate_unchanged_witness:
  "segment_notebook \<in> set repo_notebooks \<and>
   run_notebook failing_run segment_notebook 0 = Inl (''error'', 57) \<and>
   fails_at failing_run (nb_stmts segment_notebook) 0 (''error'', 57)"
proof -
  have mem: "segment_notebook \<in> set repo_notebooks"
    by (simp add: repo_notebooks_def)
  have run: "run_notebook failing_run segment_notebook 0 = Inl (''error'', 57)"
    by code_simp
  from failures_propagate_unchanged [OF mem, of failing_run 0 "(''error'', 57)"] run
  have "fails_at failing_run (nb_stmts segment_notebook) 0 (''error'', 57)"
    by blast
  with mem run show ?thesis by blast
qed

end
